theory Spec2Isabelle
  imports Complex_Main
begin

section \<open>Python values shared by the modules\<close>

text \<open>
  A Python \<open>str\<close> is a sequence of Unicode code points, so it is modelled as a list of
  code points (\<open>len\<close> is \<open>length\<close>, slicing is \<open>take\<close>). ASCII literals of the source
  are written through \<open>str_of\<close>.
\<close>

type_synonym pychar = nat
type_synonym pystr = "pychar list"

definition str_of :: "string \<Rightarrow> pystr" where
  "str_of cs = map of_char cs"

text \<open>
  Exceptions. \<open>except Exception\<close> handles the instances of \<open>Exception\<close> only;
  \<open>KeyboardInterrupt\<close>, \<open>SystemExit\<close> and \<open>GeneratorExit\<close> derive from
  \<open>BaseException\<close> directly and pass through such a handler. The string is the class name.
\<close>

datatype exn =
    PyException string
  | PyBaseException string

fun is_Exception :: "exn \<Rightarrow> bool" where
  "is_Exception (PyException _) = True"
| "is_Exception (PyBaseException _) = False"

definition IndexError :: exn where
  "IndexError = PyException ''IndexError''"

definition UnboundLocalError :: exn where
  "UnboundLocalError = PyException ''UnboundLocalError''"

text \<open>
  The source files only pass floats through (no arithmetic on them), and the recommendation
  compares two memory sizes; a float is carried as the rational number it denotes, NaN
  and the infinities left out.
\<close>

type_synonym pyfloat = rat

datatype pyval = PyNone | PyBool bool | PyInt int | PyFloat pyfloat | PyStr pystr

section \<open>engine.py: data\<close>

text \<open>The keyword arguments of the call \<open>pipe(...)\<close> in \<open>generate_video\<close>.\<close>

record call_args =
  arg_prompt :: pystr
  arg_negative_prompt :: pystr
  arg_height :: int
  arg_width :: int
  arg_num_frames :: int
  arg_guidance_scale :: pyfloat
  arg_guidance_scale_2 :: pyfloat
  arg_num_inference_steps :: int

text \<open>
  A loaded \<open>WanPipeline\<close> object. \<open>pipe_id\<close> is the identity of the Python object
  (two pipelines are the same object iff they have the same identity); the other fields
  record what the load sequence did to it.
\<close>

record pipeline =
  pipe_id :: nat
  pipe_vae :: nat
  transformer_df11 :: bool
  transformer_2_df11 :: bool
  model_cpu_offload :: bool

text \<open>A video is the frame sequence \<open>.frames[0]\<close>; a frame is opaque.\<close>

type_synonym video = "nat list"

section \<open>storage.py: data\<close>

text \<open>The parameters of \<open>record_generation\<close>, after Python has filled in the defaults
  (\<open>cfg_scale = 0.0\<close>, \<open>loras = None\<close>).\<close>

record generation_args =
  g_prompt :: pystr
  g_steps :: int
  g_width :: int
  g_height :: int
  g_filename :: pystr
  g_generation_time :: pyfloat
  g_file_size_kb :: pyfloat
  g_model :: pystr
  g_precision :: pystr
  g_seed :: "int option"
  g_cfg_scale :: pyfloat
  g_loras :: "(pystr \<times> pyval) list list option"

text \<open>The keyword arguments \<open>record_generation\<close> hands to \<open>db.add_generation\<close>.\<close>

record generation_row =
  row_prompt :: pystr
  row_steps :: int
  row_width :: int
  row_height :: int
  row_filename :: pystr
  row_generation_time :: pyfloat
  row_file_size_kb :: pyfloat
  row_model :: pystr
  row_cfg_scale :: pyfloat
  row_seed :: "int option"
  row_status :: pystr
  row_precision :: pystr
  row_loras :: "(pystr \<times> pyval) list list option"

section \<open>Effects\<close>

text \<open>
  Everything the code does outside its own variables is an event of a trace, in the order
  it happens: log records (kept as the message template and its arguments, not as the
  formatted text) and calls into the libraries and collaborators (\<open>torch\<close>,
  \<open>diffusers\<close>, \<open>dfloat11\<close>, \<open>gc\<close>, \<open>hardware\<close>, \<open>db\<close>). A call is recorded when
  it is made, also when it then raises.
\<close>

datatype level = Info | Warning | Error

datatype message =
    UsingModelExists
  | UsingDevice pystr
  | UsingModelDFloat11
  | ModelLoadingFirstTime
  | GeneratingVideoForPrompt pystr
  | ErrorGeneratingVideo exn
  | ClearingCudaCacheAfterError
  | FailedToRecordGeneration exn

datatype event =
    Log level message
  | DetectDevice
  | VaeFromPretrained string
  | PipeFromPretrained string
  | DFloat11FromPretrained string
  | EnableModelCpuOffload
  | PipeCall nat call_args
  | GcCollect
  | MpsEmptyCache
  | CudaEmptyCache
  | DbAddGeneration generation_row

text \<open>
  The world outside the process during one call: what each library call does when it is
  made. \<open>None\<close> for a loading step means that it succeeds. The modules \<open>hardware\<close>
  and \<open>db\<close> are not part of the sources at hand, so \<open>detect_device\<close> and
  \<open>db.add_generation\<close> are parameters here as well.
\<close>

record world =
  w_detect_device :: "exn + pystr"
  w_vae_from_pretrained :: "exn option"
  w_pipe_from_pretrained :: "exn option"
  w_dfloat11_from_pretrained :: "string \<Rightarrow> exn option"
  w_enable_model_cpu_offload :: "exn option"
  w_pipe_call :: "pipeline \<Rightarrow> call_args \<Rightarrow> exn + video list"
  w_mps_is_available :: bool
  w_cuda_is_available :: bool
  w_db_add_generation :: "generation_row \<Rightarrow> exn + int"

text \<open>
  The state of the process: the module global \<open>_cached_pipe\<close>, the allocator of object
  identities, and the trace so far.
\<close>

record state =
  cached_pipe :: "pipeline option"
  next_obj :: nat
  trace :: "event list"

definition init_state :: state where
  "init_state = \<lparr>cached_pipe = None, next_obj = 0, trace = []\<rparr>"

definition emit :: "event \<Rightarrow> state \<Rightarrow> state" where
  "emit ev s = s\<lparr>trace := trace s @ [ev]\<rparr>"

definition log_info :: "message \<Rightarrow> state \<Rightarrow> state" where
  "log_info m s = emit (Log Info m) s"

definition log_warn :: "message \<Rightarrow> state \<Rightarrow> state" where
  "log_warn m s = emit (Log Warning m) s"

definition log_error :: "message \<Rightarrow> state \<Rightarrow> state" where
  "log_error m s = emit (Log Error m) s"

section \<open>engine.py: \<open>load_pipeline\<close>\<close>

definition WAN_DIFFUSERS :: string where
  "WAN_DIFFUSERS = ''/home/model/Wan-AI/Wan2.2-T2V-A14B-Diffusers''"

definition DF11_TRANSFORMER :: string where
  "DF11_TRANSFORMER = ''/home/model/DFloat11/Wan2.2-T2V-A14B-DF11''"

definition DF11_TRANSFORMER_2 :: string where
  "DF11_TRANSFORMER_2 = ''/home/model/DFloat11/Wan2.2-T2V-A14B-2-DF11''"

text \<open>
  The function, statement by statement. Each library call is recorded, then either raises
  (the function is left at once, \<open>_cached_pipe\<close> not yet assigned) or succeeds. The two
  \<open>from_pretrained\<close> constructors allocate a new object each.
\<close>

definition load_pipeline :: "world \<Rightarrow> pystr option \<Rightarrow> state \<Rightarrow> (exn + pipeline) \<times> state" where
  "load_pipeline w device s =
    (case cached_pipe s of
       Some p \<Rightarrow> (Inr p, log_info UsingModelExists s)
     | None \<Rightarrow>
        (case (case device of
                 None \<Rightarrow> (w_detect_device w, emit DetectDevice s)
               | Some d \<Rightarrow> (Inr d, s)) of
           (Inl e, s1) \<Rightarrow> (Inl e, s1)
         | (Inr dev, s1) \<Rightarrow>
            (let s2 = log_info (UsingDevice dev) s1;
                 s3 = log_info UsingModelDFloat11 s2;
                 s4 = emit (VaeFromPretrained WAN_DIFFUSERS) s3
             in case w_vae_from_pretrained w of
                  Some e \<Rightarrow> (Inl e, s4)
                | None \<Rightarrow>
                   (let vae = next_obj s4;
                        s5 = emit (PipeFromPretrained WAN_DIFFUSERS) (s4\<lparr>next_obj := Suc vae\<rparr>)
                    in case w_pipe_from_pretrained w of
                         Some e \<Rightarrow> (Inl e, s5)
                       | None \<Rightarrow>
                          (let pipe = \<lparr>pipe_id = next_obj s5, pipe_vae = vae,
                                       transformer_df11 = False, transformer_2_df11 = False,
                                       model_cpu_offload = False\<rparr>;
                               s6 = emit (DFloat11FromPretrained DF11_TRANSFORMER)
                                      (s5\<lparr>next_obj := Suc (next_obj s5)\<rparr>)
                           in case w_dfloat11_from_pretrained w DF11_TRANSFORMER of
                                Some e \<Rightarrow> (Inl e, s6)
                              | None \<Rightarrow>
                                 (let pipe1 = pipe\<lparr>transformer_df11 := True\<rparr>;
                                      s7 = emit (DFloat11FromPretrained DF11_TRANSFORMER_2) s6
                                  in case w_dfloat11_from_pretrained w DF11_TRANSFORMER_2 of
                                       Some e \<Rightarrow> (Inl e, s7)
                                     | None \<Rightarrow>
                                        (let pipe2 = pipe1\<lparr>transformer_2_df11 := True\<rparr>;
                                             s8 = emit EnableModelCpuOffload s7
                                         in case w_enable_model_cpu_offload w of
                                              Some e \<Rightarrow> (Inl e, s8)
                                            | None \<Rightarrow>
                                               (let pipe3 = pipe2\<lparr>model_cpu_offload := True\<rparr>;
                                                    s9 = log_info ModelLoadingFirstTime s8
                                                in (Inr pipe3, s9\<lparr>cached_pipe := Some pipe3\<rparr>)))))))))"


section \<open>engine.py: \<open>generate_video\<close>\<close>

text \<open>The literal passed as \<open>negative_prompt\<close>, as its code points (137 characters).\<close>

definition NEGATIVE_PROMPT :: pystr where
  "NEGATIVE_PROMPT =
     [33394, 35843, 33395, 20029, 65292, 36807, 26333, 65292, 38745, 24577, 65292, 32454,
      33410, 27169, 31946, 19981, 28165, 65292, 23383, 24149, 65292, 39118, 26684, 65292,
      20316, 21697, 65292, 30011, 20316, 65292, 30011, 38754, 65292, 38745, 27490, 65292,
      25972, 20307, 21457, 28784, 65292, 26368, 24046, 36136, 37327, 65292, 20302, 36136,
      37327, 65292, 74, 80, 69, 71, 21387, 32553, 27531, 30041, 65292, 19985, 38475, 30340,
      65292, 27531, 32570, 30340, 65292, 22810, 20313, 30340, 25163, 25351, 65292, 30011,
      24471, 19981, 22909, 30340, 25163, 37096, 65292, 30011, 24471, 19981, 22909, 30340,
      33080, 37096, 65292, 30072, 24418, 30340, 65292, 27585, 23481, 30340, 65292, 24418,
      24577, 30072, 24418, 30340, 32930, 20307, 65292, 25163, 25351, 34701, 21512, 65292,
      38745, 27490, 19981, 21160, 30340, 30011, 38754, 65292, 26434, 20081, 30340, 32972,
      26223, 65292, 19977, 26465, 33151, 65292, 32972, 26223, 20154, 24456, 22810, 65292,
      20498, 30528, 36208]"

text \<open>
  The body of the \<open>try\<close> block. \<open>time.time()\<close> and entering \<open>torch.inference_mode()\<close>
  leave no trace. \<open>load_pipeline()\<close> is called without a device. The subscript
  \<open>.frames[0]\<close> raises \<open>IndexError\<close> on an empty sequence. \<open>Inr v\<close> means that the
  local variable \<open>video\<close> has been assigned \<open>v\<close>.
\<close>

definition generate_video_try :: "world \<Rightarrow> pystr \<Rightarrow> state \<Rightarrow> (exn + video) \<times> state" where
  "generate_video_try w prompt s =
    (case load_pipeline w None s of
       (Inl e, s1) \<Rightarrow> (Inl e, s1)
     | (Inr pipe, s1) \<Rightarrow>
        (let s2 = log_info (GeneratingVideoForPrompt prompt) s1;
             args = \<lparr>arg_prompt = prompt,
                     arg_negative_prompt = NEGATIVE_PROMPT,
                     arg_height = 1280,
                     arg_width = 720,
                     arg_num_frames = 150,
                     arg_guidance_scale = 4,
                     arg_guidance_scale_2 = 3,
                     arg_num_inference_steps = 30\<rparr>;
             s3 = emit (PipeCall (pipe_id pipe) args) s2
         in case w_pipe_call w pipe args of
              Inl e \<Rightarrow> (Inl e, s3)
            | Inr frames \<Rightarrow>
               (case frames of
                  [] \<Rightarrow> (Inl IndexError, s3)
                | v # _ \<Rightarrow> (Inr v, s3))))"

text \<open>The \<open>finally\<close> block.\<close>

definition generate_video_finally :: "world \<Rightarrow> state \<Rightarrow> state" where
  "generate_video_finally w s =
    (let s1 = emit GcCollect s;
         s2 = (if w_mps_is_available w then emit MpsEmptyCache s1 else s1)
     in if w_cuda_is_available w
        then emit CudaEmptyCache (log_warn ClearingCudaCacheAfterError s2)
        else s2)"

text \<open>
  The whole function. When the \<open>try\<close> block completes, \<open>video\<close> is bound and is
  returned after the \<open>finally\<close> block. When it raises an instance of \<open>Exception\<close>, the
  handler logs it, the \<open>finally\<close> block runs, and \<open>return video\<close> reads a local variable
  that was never assigned, which raises \<open>UnboundLocalError\<close>. Any other exception is not
  handled: the \<open>finally\<close> block runs and the exception goes on to the caller.
\<close>

definition generate_video :: "world \<Rightarrow> pystr \<Rightarrow> state \<Rightarrow> (exn + video) \<times> state" where
  "generate_video w prompt s =
    (case generate_video_try w prompt s of
       (Inr video, s1) \<Rightarrow> (Inr video, generate_video_finally w s1)
     | (Inl e, s1) \<Rightarrow>
        (if is_Exception e
         then (Inl UnboundLocalError,
               generate_video_finally w (log_error (ErrorGeneratingVideo e) s1))
         else (Inl e, generate_video_finally w s1)))"

definition cleanup_memory :: "world \<Rightarrow> state \<Rightarrow> state" where
  "cleanup_memory w s =
    (let s1 = emit GcCollect s;
         s2 = (if w_mps_is_available w then emit MpsEmptyCache s1 else s1)
     in if w_cuda_is_available w then emit CudaEmptyCache s2 else s2)"

text \<open>The events a call has added to the trace of the state it started from.\<close>

definition new_events :: "state \<Rightarrow> state \<Rightarrow> event list" where
  "new_events s s' = drop (length (trace s)) (trace s')"

fun is_PipeCall :: "event \<Rightarrow> bool" where
  "is_PipeCall (PipeCall _ _) = True"
| "is_PipeCall _ = False"

section \<open>storage.py\<close>

text \<open>
  \<open>prompt[:max_len]\<close>: a slice with a non-negative bound keeps that many leading
  characters; with a negative bound \<open>-k\<close> Python counts from the end and keeps all but the
  last \<open>k\<close> characters (none when \<open>k\<close> exceeds the length).
\<close>

definition slice_to :: "'a list \<Rightarrow> int \<Rightarrow> 'a list" where
  "slice_to xs n =
     (if 0 \<le> n then take (nat n) xs else take (length xs - nat (- n)) xs)"

text \<open>
  \<open>str.isalnum\<close> is decided by the Unicode character database, which is a parameter
  \<open>isalnum\<close> of the model. \<open>safe_char\<close> is the condition of the generator
  expression; \<open>c in "-_"\<close> is membership for a one-character \<open>c\<close>.
  \<open>safe or "image"\<close> is \<open>"image"\<close> exactly when \<open>safe\<close> is empty.
\<close>

definition safe_char :: "(pychar \<Rightarrow> bool) \<Rightarrow> pychar \<Rightarrow> bool" where
  "safe_char isalnum c = (isalnum c \<or> c \<in> set (str_of ''-_''))"

definition sanitize_prompt :: "(pychar \<Rightarrow> bool) \<Rightarrow> pystr \<Rightarrow> int \<Rightarrow> pystr" where
  "sanitize_prompt isalnum prompt max_len =
    (let safe = filter (safe_char isalnum) (slice_to prompt max_len)
     in if safe = [] then str_of ''image'' else safe)"

text \<open>The default of the parameter \<open>max_len\<close>.\<close>

definition sanitize_prompt_default :: "(pychar \<Rightarrow> bool) \<Rightarrow> pystr \<Rightarrow> pystr" where
  "sanitize_prompt_default isalnum prompt = sanitize_prompt isalnum prompt 30"

text \<open>\<open>str.isalnum\<close> on the ASCII range: digits and the two cases of letters.\<close>

definition ascii_isalnum :: "pychar \<Rightarrow> bool" where
  "ascii_isalnum c = ((48 \<le> c \<and> c \<le> 57) \<or> (65 \<le> c \<and> c \<le> 90) \<or> (97 \<le> c \<and> c \<le> 122))"

text \<open>
  The keyword arguments of the call \<open>db.add_generation(...)\<close> in
  \<open>record_generation\<close>, in the order of the source: each parameter under its own
  name, and the literal \<open>"succeeded"\<close> for \<open>status\<close>.
\<close>

definition add_generation_kwargs :: "generation_args \<Rightarrow> generation_row" where
  "add_generation_kwargs a =
     \<lparr>row_prompt = g_prompt a,
      row_steps = g_steps a,
      row_width = g_width a,
      row_height = g_height a,
      row_filename = g_filename a,
      row_generation_time = g_generation_time a,
      row_file_size_kb = g_file_size_kb a,
      row_model = g_model a,
      row_cfg_scale = g_cfg_scale a,
      row_seed = g_seed a,
      row_status = str_of ''succeeded'',
      row_precision = g_precision a,
      row_loras = g_loras a\<rparr>"

text \<open>
  \<open>record_generation\<close>: the value of \<open>db.add_generation\<close> is returned as it is; an
  instance of \<open>Exception\<close> is logged and turned into \<open>None\<close>; any other exception is
  not handled.
\<close>

definition record_generation ::
    "world \<Rightarrow> generation_args \<Rightarrow> state \<Rightarrow> (exn + int option) \<times> state" where
  "record_generation w a s =
    (let row = add_generation_kwargs a;
         s1 = emit (DbAddGeneration row) s
     in case w_db_add_generation w row of
          Inr new_id \<Rightarrow> (Inr (Some new_id), s1)
        | Inl e \<Rightarrow>
           (if is_Exception e
            then (Inr None, log_error (FailedToRecordGeneration e) s1)
            else (Inl e, s1)))"

fun is_DbAddGeneration :: "event \<Rightarrow> bool" where
  "is_DbAddGeneration (DbAddGeneration _) = True"
| "is_DbAddGeneration _ = False"

section \<open>The hardware module: \<open>recommend_models\<close>\<close>

text \<open>
  Modelled from the spec: the module \<open>hardware\<close> (profile, catalog and the
  recommendation, which \<open>cli.py\<close> reaches through \<open>get_available_models\<close>) is not
  among the sources, so the data follow the spec's data model. A catalog entry carries
  the resource requirement the spec speaks of and a capability rank, by which the spec
  chooses the best entry. A descriptor has the three keys that \<open>run_models\<close> in
  \<open>cli.py\<close> reads: \<open>id\<close>, \<open>hf_model_id\<close> (the upstream identifier) and
  \<open>recommended\<close>.
\<close>

datatype device_class = AcceleratorCuda | AcceleratorMps | CpuOnly

record device_profile =
  dp_device_class :: device_class
  dp_ram_gb :: "pyfloat option"
  dp_vram_gb :: "pyfloat option"

record catalog_entry =
  cat_id :: pystr
  cat_upstream_id :: pystr
  cat_required_gb :: pyfloat
  cat_capability :: nat

record model_descriptor =
  md_id :: pystr
  md_hf_model_id :: pystr
  md_recommended :: bool

text \<open>
  Modelled from the spec: an entry fits when its resource requirement does not exceed
  the profile's available memory. The spec does not say how the available memory is
  read off the profile's fields, so that reading is the parameter \<open>budget\<close>.
\<close>

definition fits :: "(device_profile \<Rightarrow> pyfloat) \<Rightarrow> device_profile \<Rightarrow> catalog_entry \<Rightarrow> bool" where
  "fits budget profile e = (cat_required_gb e \<le> budget profile)"

text \<open>
  Modelled from the spec: the position of the highest-capability entry of a sequence,
  ties broken by declaration order (the earliest of the entries of highest capability).
\<close>

fun best_index :: "catalog_entry list \<Rightarrow> nat" where
  "best_index [] = 0"
| "best_index (e # es) =
     (if \<forall>x \<in> set es. cat_capability x \<le> cat_capability e then 0 else Suc (best_index es))"

text \<open>
  Modelled from the spec: \<open>recommend_models\<close> filters out the entries that do not fit,
  keeps the catalog's order, and marks the single best fitting entry as recommended.
\<close>

definition recommend_models ::
    "(device_profile \<Rightarrow> pyfloat) \<Rightarrow> catalog_entry list \<Rightarrow> device_profile \<Rightarrow> model_descriptor list" where
  "recommend_models budget catalog profile =
    (let fitting = filter (fits budget profile) catalog;
         best = best_index fitting
     in map (\<lambda>(i, e). \<lparr>md_id = cat_id e, md_hf_model_id = cat_upstream_id e,
                        md_recommended = (i = best)\<rparr>)
            (enumerate 0 fitting))"

section \<open>The load sequence, as the specification describes it\<close>

text \<open>
  The specification side of \<open>load_pipeline\<close> on an empty cache, to compare the code with:
  the spec's load sequence names its steps (resolve the base pipeline components, apply
  the compact weight representation to each major sub-module, enable the offload) and
  says that a step that fails ends the attempt with that failure. \<open>load_steps\<close> lists the
  five library calls of the sequence in order, each with what the world makes of it.
\<close>

definition load_steps :: "world \<Rightarrow> (event \<times> exn option) list" where
  "load_steps w =
     [(VaeFromPretrained WAN_DIFFUSERS, w_vae_from_pretrained w),
      (PipeFromPretrained WAN_DIFFUSERS, w_pipe_from_pretrained w),
      (DFloat11FromPretrained DF11_TRANSFORMER, w_dfloat11_from_pretrained w DF11_TRANSFORMER),
      (DFloat11FromPretrained DF11_TRANSFORMER_2, w_dfloat11_from_pretrained w DF11_TRANSFORMER_2),
      (EnableModelCpuOffload, w_enable_model_cpu_offload w)]"

text \<open>
  Running steps in order stops at the first one that raises: \<open>steps_events\<close> are the calls
  made (the raising one included), \<open>steps_failure\<close> is the exception of the first
  raising step, if any.
\<close>

fun steps_events :: "(event \<times> exn option) list \<Rightarrow> event list" where
  "steps_events [] = []"
| "steps_events ((ev, r) # rest) = ev # (case r of None \<Rightarrow> steps_events rest | Some _ \<Rightarrow> [])"

fun steps_failure :: "(event \<times> exn option) list \<Rightarrow> exn option" where
  "steps_failure [] = None"
| "steps_failure ((ev, r) # rest) = (case r of None \<Rightarrow> steps_failure rest | Some e \<Rightarrow> Some e)"

text \<open>The device is the caller's hint, or else what the hardware prober answers.\<close>

definition resolve_device :: "world \<Rightarrow> pystr option \<Rightarrow> event list \<times> (exn + pystr)" where
  "resolve_device w device =
     (case device of
        Some d \<Rightarrow> ([], Inr d)
      | None \<Rightarrow> ([DetectDevice], w_detect_device w))"

text \<open>
  \<open>load_failure\<close>: the exception of the first step of an attempt that raises (the device
  probe first, then the steps of the load sequence), \<open>None\<close> when every step succeeds.
  \<open>attempt_events\<close>: everything a whole attempt does, from its first step on: the probe
  when no device is given, the two log records, the steps up to the first failure, and
  the closing log record when no step has failed.
\<close>

definition load_failure :: "world \<Rightarrow> pystr option \<Rightarrow> exn option" where
  "load_failure w device =
     (case snd (resolve_device w device) of
        Inl e \<Rightarrow> Some e
      | Inr _ \<Rightarrow> steps_failure (load_steps w))"

definition attempt_events :: "world \<Rightarrow> pystr option \<Rightarrow> event list" where
  "attempt_events w device =
     fst (resolve_device w device) @
     (case snd (resolve_device w device) of
        Inl _ \<Rightarrow> []
      | Inr dev \<Rightarrow>
         [Log Info (UsingDevice dev), Log Info UsingModelDFloat11] @
         steps_events (load_steps w) @
         (case steps_failure (load_steps w) of
            None \<Rightarrow> [Log Info ModelLoadingFirstTime]
          | Some _ \<Rightarrow> []))"

text \<open>The pipeline a completed load sequence builds in a state: two new objects (the VAE,
  then the pipeline), both transformers in DFloat11, offload enabled.\<close>

definition built_pipe :: "state \<Rightarrow> pipeline" where
  "built_pipe s =
     \<lparr>pipe_id = Suc (next_obj s), pipe_vae = next_obj s, transformer_df11 = True,
      transformer_2_df11 = True, model_cpu_offload = True\<rparr>"

section \<open>Auxiliary definitions for the proofs\<close>


text \<open>
  Two results of \<open>load_pipeline\<close> are the same outcome when they are the same exception,
  or pipelines that differ at most in the identities of the objects allocated for them.
\<close>

definition same_outcome :: "exn + pipeline \<Rightarrow> exn + pipeline \<Rightarrow> bool" where
  "same_outcome r r' =
     (case r of
        Inl e \<Rightarrow> r' = Inl e
      | Inr p \<Rightarrow>
         (case r' of
            Inl _ \<Rightarrow> False
          | Inr p' \<Rightarrow> p\<lparr>pipe_id := pipe_id p', pipe_vae := pipe_vae p'\<rparr> = p'))"

text \<open>Concrete worlds for the examples: one in which everything succeeds on a CUDA host,
  one in which the DFloat11 weights of the first transformer are missing, one in which
  the pipeline call raises, and one whose database is down.\<close>

definition world_ok :: world where
  "world_ok =
     \<lparr>w_detect_device = Inr (str_of ''cuda''),
      w_vae_from_pretrained = None,
      w_pipe_from_pretrained = None,
      w_dfloat11_from_pretrained = (\<lambda>_. None),
      w_enable_model_cpu_offload = None,
      w_pipe_call = (\<lambda>_ _. Inr [[1, 2, 3]]),
      w_mps_is_available = False,
      w_cuda_is_available = True,
      w_db_add_generation = (\<lambda>_. Inr 7)\<rparr>"

definition world_missing_df11 :: world where
  "world_missing_df11 =
     world_ok\<lparr>w_dfloat11_from_pretrained :=
       (\<lambda>path. if path = DF11_TRANSFORMER then Some (PyException ''OSError'') else None)\<rparr>"

definition world_pipe_raises :: world where
  "world_pipe_raises =
     world_ok\<lparr>w_pipe_call := (\<lambda>_ _. Inl (PyException ''RuntimeError''))\<rparr>"

definition world_db_down :: world where
  "world_db_down =
     world_ok\<lparr>w_db_add_generation := (\<lambda>_. Inl (PyException ''OperationalError''))\<rparr>"

definition example_args :: generation_args where
  "example_args =
     \<lparr>g_prompt = str_of ''a cat'', g_steps = 30, g_width = 720, g_height = 1280,
      g_filename = str_of ''a_cat.mp4'', g_generation_time = 12, g_file_size_kb = 2048,
      g_model = str_of ''wan'', g_precision = str_of ''df11'', g_seed = None,
      g_cfg_scale = 0, g_loras = None\<rparr>"

text \<open>The pipeline object and the state that the example of the single load reaches: a
  first call fails on the missing weights (objects 0 and 1 are dropped), the second
  call loads.\<close>

definition example_pipe :: pipeline where
  "example_pipe =
     \<lparr>pipe_id = 3, pipe_vae = 2, transformer_df11 = True, transformer_2_df11 = True,
      model_cpu_offload = True\<rparr>"

definition example_failed :: state where
  "example_failed =
     \<lparr>cached_pipe = None, next_obj = 2,
      trace =
        [DetectDevice, Log Info (UsingDevice (str_of ''cuda'')), Log Info UsingModelDFloat11,
         VaeFromPretrained WAN_DIFFUSERS, PipeFromPretrained WAN_DIFFUSERS,
         DFloat11FromPretrained DF11_TRANSFORMER]\<rparr>"


text \<open>
  The scenario of the recommendation: a CPU-only host with 8 GB of RAM, the budget read
  as the accelerator memory when present and the RAM otherwise, and a catalog of three
  entries that need 4, 16 and 6 GB.
\<close>

definition example_budget :: "device_profile \<Rightarrow> pyfloat" where
  "example_budget p =
     (case dp_vram_gb p of
        Some v \<Rightarrow> v
      | None \<Rightarrow> (case dp_ram_gb p of Some r \<Rightarrow> r | None \<Rightarrow> 0))"

definition example_profile :: device_profile where
  "example_profile = \<lparr>dp_device_class = CpuOnly, dp_ram_gb = Some 8, dp_vram_gb = None\<rparr>"

definition example_small_profile :: device_profile where
  "example_small_profile = \<lparr>dp_device_class = CpuOnly, dp_ram_gb = Some 2, dp_vram_gb = None\<rparr>"

definition example_catalog :: "catalog_entry list" where
  "example_catalog =
     [\<lparr>cat_id = str_of ''small'', cat_upstream_id = str_of ''org/small'',
       cat_required_gb = 4, cat_capability = 1\<rparr>,
      \<lparr>cat_id = str_of ''large'', cat_upstream_id = str_of ''org/large'',
       cat_required_gb = 16, cat_capability = 3\<rparr>,
      \<lparr>cat_id = str_of ''medium'', cat_upstream_id = str_of ''org/medium'',
       cat_required_gb = 6, cat_capability = 2\<rparr>]"

section \<open>Basic facts about the state\<close>

lemma trace_emit: "trace (emit ev s) = trace s @ [ev]"
  by (simp add: emit_def)

lemma cached_pipe_emit: "cached_pipe (emit ev s) = cached_pipe s"
  by (simp add: emit_def)

lemma next_obj_emit: "next_obj (emit ev s) = next_obj s"
  by (simp add: emit_def)

lemmas emit_simps = trace_emit cached_pipe_emit next_obj_emit log_info_def log_warn_def log_error_def









lemma new_events_append: "trace s' = trace s @ evs \<Longrightarrow> new_events s s' = evs"
  by (simp add: new_events_def)

lemma load_pipeline_trace:
  "load_pipeline w device s = (r, s1) \<Longrightarrow>
   \<exists>evs. trace s1 = trace s @ evs \<and> GcCollect \<notin> set evs \<and> MpsEmptyCache \<notin> set evs \<and>
         CudaEmptyCache \<notin> set evs \<and> filter is_PipeCall evs = []"
  by (auto simp: load_pipeline_def Let_def emit_simps split: option.splits sum.splits prod.splits)

lemma generate_video_try_trace:
  assumes "generate_video_try w prompt s = (r, s1)"
  shows "\<exists>evs. trace s1 = trace s @ evs \<and> GcCollect \<notin> set evs \<and> MpsEmptyCache \<notin> set evs \<and>
         CudaEmptyCache \<notin> set evs \<and>
         filter is_PipeCall evs =
           (case fst (load_pipeline w None s) of
              Inl _ \<Rightarrow> []
            | Inr pipe \<Rightarrow>
               [PipeCall (pipe_id pipe)
                  \<lparr>arg_prompt = prompt, arg_negative_prompt = NEGATIVE_PROMPT,
                   arg_height = 1280, arg_width = 720, arg_num_frames = 150,
                   arg_guidance_scale = 4, arg_guidance_scale_2 = 3,
                   arg_num_inference_steps = 30\<rparr>])"
proof -
  obtain r0 s0 where lp: "load_pipeline w None s = (r0, s0)"
    by (cases "load_pipeline w None s")
  from load_pipeline_trace [OF lp] obtain evs0 where
    evs0: "trace s0 = trace s @ evs0" "GcCollect \<notin> set evs0" "MpsEmptyCache \<notin> set evs0"
      "CudaEmptyCache \<notin> set evs0" "filter is_PipeCall evs0 = []"
    by blast
  show ?thesis
    using assms evs0
    by (cases r0)
       (auto simp: generate_video_try_def lp Let_def emit_simps split: sum.splits list.splits)
qed

lemma cached_pipe_try:
  "generate_video_try w prompt s = (r, s1) \<Longrightarrow> cached_pipe s1 = cached_pipe (snd (load_pipeline w None s))"
  by (auto simp: generate_video_try_def Let_def emit_simps split: sum.splits list.splits prod.splits)

lemma cached_pipe_finally: "cached_pipe (generate_video_finally w s) = cached_pipe s"
  by (simp add: generate_video_finally_def Let_def emit_simps)

lemma trace_finally:
  "trace (generate_video_finally w s) =
     trace s @ [GcCollect] @ (if w_mps_is_available w then [MpsEmptyCache] else []) @
       (if w_cuda_is_available w then [Log Warning ClearingCudaCacheAfterError, CudaEmptyCache] else [])"
  by (simp add: generate_video_finally_def Let_def emit_simps)

lemma generate_video_trace:
  "\<exists>evs h. trace (snd (generate_video w prompt s)) =
       trace s @ evs @ h @ [GcCollect] @ (if w_mps_is_available w then [MpsEmptyCache] else []) @
       (if w_cuda_is_available w then [Log Warning ClearingCudaCacheAfterError, CudaEmptyCache] else []) \<and>
     GcCollect \<notin> set evs \<and> MpsEmptyCache \<notin> set evs \<and> CudaEmptyCache \<notin> set evs \<and>
     (h = [] \<or> (\<exists>e. h = [Log Error (ErrorGeneratingVideo e)])) \<and>
     filter is_PipeCall evs =
           (case fst (load_pipeline w None s) of
              Inl _ \<Rightarrow> []
            | Inr pipe \<Rightarrow>
               [PipeCall (pipe_id pipe)
                  \<lparr>arg_prompt = prompt, arg_negative_prompt = NEGATIVE_PROMPT,
                   arg_height = 1280, arg_width = 720, arg_num_frames = 150,
                   arg_guidance_scale = 4, arg_guidance_scale_2 = 3,
                   arg_num_inference_steps = 30\<rparr>])"
proof -
  obtain r s1 where t: "generate_video_try w prompt s = (r, s1)"
    by (cases "generate_video_try w prompt s")
  from generate_video_try_trace [OF t] obtain evs where
    evs: "trace s1 = trace s @ evs" "GcCollect \<notin> set evs" "MpsEmptyCache \<notin> set evs"
      "CudaEmptyCache \<notin> set evs" 
      "filter is_PipeCall evs =
           (case fst (load_pipeline w None s) of
              Inl _ \<Rightarrow> []
            | Inr pipe \<Rightarrow>
               [PipeCall (pipe_id pipe)
                  \<lparr>arg_prompt = prompt, arg_negative_prompt = NEGATIVE_PROMPT,
                   arg_height = 1280, arg_width = 720, arg_num_frames = 150,
                   arg_guidance_scale = 4, arg_guidance_scale_2 = 3,
                   arg_num_inference_steps = 30\<rparr>])"
    by blast
  show ?thesis
  proof (cases r)
    case (Inr v)
    then have "trace (snd (generate_video w prompt s)) =
       trace s @ evs @ [] @ [GcCollect] @ (if w_mps_is_available w then [MpsEmptyCache] else []) @
       (if w_cuda_is_available w then [Log Warning ClearingCudaCacheAfterError, CudaEmptyCache] else [])"
      by (simp add: generate_video_def t trace_finally evs(1))
    with evs show ?thesis by blast
  next
    case (Inl e)
    show ?thesis
    proof (cases "is_Exception e")
      case True
      with Inl have "trace (snd (generate_video w prompt s)) =
         trace s @ evs @ [Log Error (ErrorGeneratingVideo e)] @ [GcCollect] @
         (if w_mps_is_available w then [MpsEmptyCache] else []) @
         (if w_cuda_is_available w then [Log Warning ClearingCudaCacheAfterError, CudaEmptyCache] else [])"
        by (simp add: generate_video_def t trace_finally emit_simps evs(1))
      with evs show ?thesis by blast
    next
      case False
      with Inl have "trace (snd (generate_video w prompt s)) =
         trace s @ evs @ [] @ [GcCollect] @ (if w_mps_is_available w then [MpsEmptyCache] else []) @
         (if w_cuda_is_available w then [Log Warning ClearingCudaCacheAfterError, CudaEmptyCache] else [])"
        by (simp add: generate_video_def t trace_finally evs(1))
      with evs show ?thesis by blast
    qed
  qed
qed

lemma load_pipeline_from_empty:
  assumes "cached_pipe s = None" and "cached_pipe t = None"
  shows "new_events s (snd (load_pipeline w device s)) = new_events t (snd (load_pipeline w device t)) \<and>
         same_outcome (fst (load_pipeline w device s)) (fst (load_pipeline w device t))"
  using assms
  by (auto simp: load_pipeline_def new_events_def same_outcome_def Let_def emit_simps
           split: option.splits sum.splits prod.splits)

lemma new_events_init: "new_events init_state s = trace s"
  by (simp add: new_events_def init_state_def)

text \<open>The code against the specification side of the load sequence.\<close>

lemmas attempt_defs = load_failure_def attempt_events_def resolve_device_def load_steps_def

lemma load_failure_iff:
  "load_failure w device \<noteq> None \<longleftrightarrow>
     (device = None \<and> isl (w_detect_device w)) \<or>
     w_vae_from_pretrained w \<noteq> None \<or>
     w_pipe_from_pretrained w \<noteq> None \<or>
     w_dfloat11_from_pretrained w DF11_TRANSFORMER \<noteq> None \<or>
     w_dfloat11_from_pretrained w DF11_TRANSFORMER_2 \<noteq> None \<or>
     w_enable_model_cpu_offload w \<noteq> None"
  by (auto simp: attempt_defs split: option.splits sum.splits)

lemma load_pipeline_miss_result:
  "cached_pipe s = None \<Longrightarrow>
   fst (load_pipeline w device s) =
     (case load_failure w device of Some e \<Rightarrow> Inl e | None \<Rightarrow> Inr (built_pipe s))"
  by (auto simp: load_pipeline_def attempt_defs built_pipe_def Let_def emit_simps
           split: option.splits sum.splits prod.splits)

lemma load_pipeline_miss_trace:
  "cached_pipe s = None \<Longrightarrow>
   trace (snd (load_pipeline w device s)) = trace s @ attempt_events w device"
  by (auto simp: load_pipeline_def attempt_defs Let_def emit_simps
           split: option.splits sum.splits prod.splits)

lemma load_pipeline_miss_cached:
  "cached_pipe s = None \<Longrightarrow>
   cached_pipe (snd (load_pipeline w device s)) =
     (case load_failure w device of Some _ \<Rightarrow> None | None \<Rightarrow> Some (built_pipe s))"
  by (auto simp: load_pipeline_def attempt_defs built_pipe_def Let_def emit_simps
           split: option.splits sum.splits prod.splits)


text \<open>The example calls, evaluated.\<close>

lemma example_first_call_fails:
  "load_pipeline world_missing_df11 None init_state = (Inl (PyException ''OSError''), example_failed)"
  by (simp add: load_pipeline_def world_missing_df11_def world_ok_def init_state_def
      example_failed_def emit_def log_info_def Let_def)



lemma example_first_load:
  "load_pipeline world_ok None init_state =
     (Inr \<lparr>pipe_id = 1, pipe_vae = 0, transformer_df11 = True, transformer_2_df11 = True,
           model_cpu_offload = True\<rparr>,
      \<lparr>cached_pipe = Some \<lparr>pipe_id = 1, pipe_vae = 0, transformer_df11 = True,
           transformer_2_df11 = True, model_cpu_offload = True\<rparr>,
       next_obj = 2,
       trace =
        [DetectDevice, Log Info (UsingDevice (str_of ''cuda'')), Log Info UsingModelDFloat11,
         VaeFromPretrained WAN_DIFFUSERS, PipeFromPretrained WAN_DIFFUSERS,
         DFloat11FromPretrained DF11_TRANSFORMER, DFloat11FromPretrained DF11_TRANSFORMER_2,
         EnableModelCpuOffload, Log Info ModelLoadingFirstTime]\<rparr>)"
  by (simp add: load_pipeline_def world_ok_def init_state_def emit_def log_info_def Let_def)

lemma example_load_pipe_raises:
  "load_pipeline world_pipe_raises None init_state =
     (Inr \<lparr>pipe_id = 1, pipe_vae = 0, transformer_df11 = True, transformer_2_df11 = True,
           model_cpu_offload = True\<rparr>,
      \<lparr>cached_pipe = Some \<lparr>pipe_id = 1, pipe_vae = 0, transformer_df11 = True,
           transformer_2_df11 = True, model_cpu_offload = True\<rparr>,
       next_obj = 2,
       trace =
        [DetectDevice, Log Info (UsingDevice (str_of ''cuda'')), Log Info UsingModelDFloat11,
         VaeFromPretrained WAN_DIFFUSERS, PipeFromPretrained WAN_DIFFUSERS,
         DFloat11FromPretrained DF11_TRANSFORMER, DFloat11FromPretrained DF11_TRANSFORMER_2,
         EnableModelCpuOffload, Log Info ModelLoadingFirstTime]\<rparr>)"
  by (simp add: load_pipeline_def world_pipe_raises_def world_ok_def init_state_def
      emit_def log_info_def Let_def)

text \<open>Whatever \<open>Exception\<close> the \<open>try\<close> block raises, the caller of
  \<open>generate_video\<close> gets \<open>UnboundLocalError\<close>.\<close>

lemma generate_video_handled_exception:
  assumes "generate_video_try w prompt s = (Inl e, s1)" and "is_Exception e"
  shows "fst (generate_video w prompt s) = Inl UnboundLocalError"
  using assms by (simp add: generate_video_def)

text \<open>Facts about \<open>sanitize_prompt\<close>.\<close>

lemma sanitize_prompt_nonempty: "sanitize_prompt isalnum prompt max_len \<noteq> []"
  by (simp add: sanitize_prompt_def Let_def str_of_def)

lemma sanitize_prompt_drops_tail:
  "max_len < 0 \<Longrightarrow>
   sanitize_prompt isalnum prompt max_len =
     (let safe = filter (safe_char isalnum) (take (length prompt - nat (- max_len)) prompt)
      in if safe = [] then str_of ''image'' else safe)"
  by (simp add: sanitize_prompt_def slice_to_def)

text \<open>Facts about the recommendation.\<close>

lemma best_index_less: "es \<noteq> [] \<Longrightarrow> best_index es < length es"
proof (induction es)
  case Nil
  then show ?case by simp
next
  case (Cons e es)
  show ?case
  proof (cases "\<forall>x \<in> set es. cat_capability x \<le> cat_capability e")
    case True
    then show ?thesis by simp
  next
    case False
    then have "es \<noteq> []" by auto
    with Cons.IH False show ?thesis by simp
  qed
qed

lemma best_index_max:
  "j < length es \<Longrightarrow> cat_capability (es ! j) \<le> cat_capability (es ! best_index es)"
proof (induction es arbitrary: j)
  case Nil
  then show ?case by simp
next
  case (Cons e es)
  show ?case
  proof (cases "\<forall>x \<in> set es. cat_capability x \<le> cat_capability e")
    case True
    with Cons.prems show ?thesis by (cases j) auto
  next
    case False
    then obtain x where x: "x \<in> set es" "cat_capability e < cat_capability x" by auto
    then obtain k where k: "k < length es" "es ! k = x" by (auto simp: in_set_conv_nth)
    from Cons.IH [OF k(1)] k(2) x(2)
    have lt: "cat_capability e < cat_capability (es ! best_index es)" by simp
    from False have bi: "best_index (e # es) = Suc (best_index es)" by simp
    show ?thesis
    proof (cases j)
      case 0
      with lt show ?thesis unfolding bi by simp
    next
      case (Suc k)
      with Cons.prems have "k < length es" by simp
      from Cons.IH [OF this] Suc show ?thesis unfolding bi by simp
    qed
  qed
qed

lemma best_index_first:
  "j < best_index es \<Longrightarrow> cat_capability (es ! j) < cat_capability (es ! best_index es)"
proof (induction es arbitrary: j)
  case Nil
  then show ?case by simp
next
  case (Cons e es)
  show ?case
  proof (cases "\<forall>x \<in> set es. cat_capability x \<le> cat_capability e")
    case True
    with Cons.prems show ?thesis by simp
  next
    case False
    then obtain x where x: "x \<in> set es" "cat_capability e < cat_capability x" by auto
    then obtain k where k: "k < length es" "es ! k = x" by (auto simp: in_set_conv_nth)
    from best_index_max [OF k(1)] k(2) x(2)
    have lt: "cat_capability e < cat_capability (es ! best_index es)" by simp
    from False have bi: "best_index (e # es) = Suc (best_index es)" by simp
    show ?thesis
    proof (cases j)
      case 0
      with lt show ?thesis unfolding bi by simp
    next
      case (Suc k)
      have "j < Suc (best_index es)" using Cons.prems by (simp only: bi)
      with Suc have "k < best_index es" by simp
      from Cons.IH [OF this] Suc show ?thesis unfolding bi by simp
    qed
  qed
qed

lemma mark_one: "b < n \<Longrightarrow> map (\<lambda>i. i = b) [0..<n] = (replicate n False)[b := True]"
  by (auto simp: list_eq_iff_nth_eq nth_list_update)

lemma map_of_snd_enumerate: "map (\<lambda>p. f (snd p)) (enumerate n xs) = map f xs"
  by (rule nth_equalityI) (simp_all add: nth_enumerate_eq)

lemma map_of_fst_enumerate: "map (\<lambda>p. g (fst p)) (enumerate n xs) = map g [n..<n + length xs]"
  by (rule nth_equalityI) (simp_all add: nth_enumerate_eq)

lemma recommend_models_ids:
  "map md_id (recommend_models budget catalog profile) =
     map cat_id (filter (fits budget profile) catalog) \<and>
   map md_hf_model_id (recommend_models budget catalog profile) =
     map cat_upstream_id (filter (fits budget profile) catalog)"
  by (simp add: recommend_models_def Let_def case_prod_unfold o_def map_of_snd_enumerate)

lemma recommend_models_marks:
  "map md_recommended (recommend_models budget catalog profile) =
     map (\<lambda>i. i = best_index (filter (fits budget profile) catalog))
       [0..<length (filter (fits budget profile) catalog)]"
  using map_of_fst_enumerate
          [of "\<lambda>i. i = best_index (filter (fits budget profile) catalog)" 0
              "filter (fits budget profile) catalog"]
  by (simp add: recommend_models_def Let_def case_prod_unfold o_def)

section \<open>engine.py: the pipeline cache\<close>



text \<open>
  Claim C3 (load failure atomicity and retry). With the cache slot empty, let \<open>e\<close> be
  the exception of the first step of the attempt that raises in the world of the call
  (\<open>detect_device\<close> when no device is given, one of the two \<open>from_pretrained\<close>
  constructors, one of the two DFloat11 loads, or \<open>enable_model_cpu_offload\<close>). Then
  \<open>load_pipeline\<close> ends with that very exception \<open>e\<close> for its caller, having made the
  calls up to the failing step and no other, and the slot is still empty afterwards. A
  following call, in any world and with any \<open>device\<close>, runs the whole attempt again
  from its first step: its events are those of a full attempt in its world; it ends with
  the exception of the first step failing there, or, when no step fails, with a pipeline
  newly built from two new objects, which it stores in the slot. It is also exactly what
  the first call of a new process would do. Nothing of the failed attempt, neither a
  value nor the failure, is reused.
\<close>

theorem load_pipeline_failure_retry:
  assumes "cached_pipe s = None" and "load_failure w device = Some e"
  shows "\<exists>s1. load_pipeline w device s = (Inl e, s1) \<and> cached_pipe s1 = None \<and>
           new_events s s1 = attempt_events w device \<and>
           (\<forall>w' device'.
              new_events s1 (snd (load_pipeline w' device' s1)) = attempt_events w' device' \<and>
              fst (load_pipeline w' device' s1) =
                (case load_failure w' device' of
                   Some e' \<Rightarrow> Inl e'
                 | None \<Rightarrow>
                    Inr \<lparr>pipe_id = Suc (next_obj s1), pipe_vae = next_obj s1,
                         transformer_df11 = True, transformer_2_df11 = True,
                         model_cpu_offload = True\<rparr>) \<and>
              cached_pipe (snd (load_pipeline w' device' s1)) =
                (case load_failure w' device' of
                   Some _ \<Rightarrow> None
                 | None \<Rightarrow>
                    Some \<lparr>pipe_id = Suc (next_obj s1), pipe_vae = next_obj s1,
                          transformer_df11 = True, transformer_2_df11 = True,
                          model_cpu_offload = True\<rparr>) \<and>
              new_events s1 (snd (load_pipeline w' device' s1)) =
                trace (snd (load_pipeline w' device' init_state)) \<and>
              same_outcome (fst (load_pipeline w' device' s1))
                (fst (load_pipeline w' device' init_state)))"
proof -
  obtain r s1 where call: "load_pipeline w device s = (r, s1)"
    by (cases "load_pipeline w device s")
  from load_pipeline_miss_result [OF assms(1), of w device] assms(2) call
  have r: "r = Inl e" by simp
  from load_pipeline_miss_cached [OF assms(1), of w device] assms(2) call
  have empty: "cached_pipe s1 = None" by simp
  from load_pipeline_miss_trace [OF assms(1), of w device] call
  have "trace s1 = trace s @ attempt_events w device" by simp
  then have ev: "new_events s s1 = attempt_events w device"
    by (rule new_events_append)
  have init: "cached_pipe init_state = None" by (simp add: init_state_def)
  have retry: "new_events s1 (snd (load_pipeline w' device' s1)) = attempt_events w' device' \<and>
      fst (load_pipeline w' device' s1) =
        (case load_failure w' device' of
           Some e' \<Rightarrow> Inl e'
         | None \<Rightarrow>
            Inr \<lparr>pipe_id = Suc (next_obj s1), pipe_vae = next_obj s1,
                 transformer_df11 = True, transformer_2_df11 = True,
                 model_cpu_offload = True\<rparr>) \<and>
      cached_pipe (snd (load_pipeline w' device' s1)) =
        (case load_failure w' device' of
           Some _ \<Rightarrow> None
         | None \<Rightarrow>
            Some \<lparr>pipe_id = Suc (next_obj s1), pipe_vae = next_obj s1,
                  transformer_df11 = True, transformer_2_df11 = True,
                  model_cpu_offload = True\<rparr>) \<and>
      new_events s1 (snd (load_pipeline w' device' s1)) =
        trace (snd (load_pipeline w' device' init_state)) \<and>
      same_outcome (fst (load_pipeline w' device' s1))
        (fst (load_pipeline w' device' init_state))" for w' device'
  proof -
    have "new_events s1 (snd (load_pipeline w' device' s1)) = attempt_events w' device'"
      using load_pipeline_miss_trace [OF empty, of w' device'] by (rule new_events_append)
    moreover note load_pipeline_miss_result [OF empty, of w' device', unfolded built_pipe_def]
      load_pipeline_miss_cached [OF empty, of w' device', unfolded built_pipe_def]
    moreover from load_pipeline_from_empty [OF empty init, of w' device']
    have "new_events s1 (snd (load_pipeline w' device' s1)) =
        trace (snd (load_pipeline w' device' init_state)) \<and>
      same_outcome (fst (load_pipeline w' device' s1))
        (fst (load_pipeline w' device' init_state))"
      by (simp add: new_events_init)
    ultimately show ?thesis by simp
  qed
  from call r empty ev retry show ?thesis by blast
qed

theorem load_pipeline_failure_retry_witness:
  "cached_pipe init_state = None \<and>
   load_failure world_missing_df11 None = Some (PyException ''OSError'') \<and>
   load_pipeline world_missing_df11 None init_state =
     (Inl (PyException ''OSError''), example_failed) \<and>
   cached_pipe example_failed = None \<and>
   new_events init_state example_failed =
     [DetectDevice, Log Info (UsingDevice (str_of ''cuda'')), Log Info UsingModelDFloat11,
      VaeFromPretrained WAN_DIFFUSERS, PipeFromPretrained WAN_DIFFUSERS,
      DFloat11FromPretrained DF11_TRANSFORMER] \<and>
   load_failure world_ok None = None \<and>
   new_events example_failed (snd (load_pipeline world_ok None example_failed)) =
     [DetectDevice, Log Info (UsingDevice (str_of ''cuda'')), Log Info UsingModelDFloat11,
      VaeFromPretrained WAN_DIFFUSERS, PipeFromPretrained WAN_DIFFUSERS,
      DFloat11FromPretrained DF11_TRANSFORMER, DFloat11FromPretrained DF11_TRANSFORMER_2,
      EnableModelCpuOffload, Log Info ModelLoadingFirstTime] \<and>
   fst (load_pipeline world_ok None example_failed) = Inr example_pipe \<and>
   cached_pipe (snd (load_pipeline world_ok None example_failed)) = Some example_pipe"
proof -
  have h1: "cached_pipe init_state = None" by (simp add: init_state_def)
  have h2: "load_failure world_missing_df11 None = Some (PyException ''OSError'')"
    by (simp add: attempt_defs world_missing_df11_def world_ok_def)
  have ok: "load_failure world_ok None = None"
    by (simp add: attempt_defs world_ok_def)
  have ev1: "attempt_events world_missing_df11 None =
     [DetectDevice, Log Info (UsingDevice (str_of ''cuda'')), Log Info UsingModelDFloat11,
      VaeFromPretrained WAN_DIFFUSERS, PipeFromPretrained WAN_DIFFUSERS,
      DFloat11FromPretrained DF11_TRANSFORMER]"
    by (simp add: attempt_defs world_missing_df11_def world_ok_def)
  have ev2: "attempt_events world_ok None =
     [DetectDevice, Log Info (UsingDevice (str_of ''cuda'')), Log Info UsingModelDFloat11,
      VaeFromPretrained WAN_DIFFUSERS, PipeFromPretrained WAN_DIFFUSERS,
      DFloat11FromPretrained DF11_TRANSFORMER, DFloat11FromPretrained DF11_TRANSFORMER_2,
      EnableModelCpuOffload, Log Info ModelLoadingFirstTime]"
    by (simp add: attempt_defs world_ok_def)
  from load_pipeline_failure_retry [OF h1 h2]
  obtain s1 where
    r: "load_pipeline world_missing_df11 None init_state = (Inl (PyException ''OSError''), s1)"
      "cached_pipe s1 = None"
      "new_events init_state s1 = attempt_events world_missing_df11 None"
      "new_events s1 (snd (load_pipeline world_ok None s1)) = attempt_events world_ok None"
      "fst (load_pipeline world_ok None s1) =
         (case load_failure world_ok None of
            Some e' \<Rightarrow> Inl e'
          | None \<Rightarrow>
             Inr \<lparr>pipe_id = Suc (next_obj s1), pipe_vae = next_obj s1,
                  transformer_df11 = True, transformer_2_df11 = True,
                  model_cpu_offload = True\<rparr>)"
      "cached_pipe (snd (load_pipeline world_ok None s1)) =
         (case load_failure world_ok None of
            Some _ \<Rightarrow> None
          | None \<Rightarrow>
             Some \<lparr>pipe_id = Suc (next_obj s1), pipe_vae = next_obj s1,
                   transformer_df11 = True, transformer_2_df11 = True,
                   model_cpu_offload = True\<rparr>)"
    by blast
  from r(1) have s1: "s1 = example_failed"
    by (simp add: example_first_call_fails)
  have n: "next_obj example_failed = 2" by (simp add: example_failed_def)
  from r h1 h2 ok show ?thesis
    unfolding s1 by (simp add: ev1 ev2 n example_pipe_def)
qed

section \<open>engine.py: \<open>generate_video\<close>\<close>

text \<open>
  Claim C4 (guaranteed cleanup). Whatever the world, the prompt and the state, and
  whichever way \<open>generate_video\<close> is left (the video is returned, pipeline acquisition
  or the pipeline call raises an \<open>Exception\<close>, or an exception that the handler does not
  catch passes through), the events of the call contain the garbage collection exactly
  once, the MPS cache flush exactly once when MPS is available and not at all otherwise,
  and the CUDA cache flush exactly once when CUDA is available and not at all otherwise.
\<close>

theorem generate_video_cleanup_once:
  "count_list (new_events s (snd (generate_video w prompt s))) GcCollect = 1 \<and>
   count_list (new_events s (snd (generate_video w prompt s))) MpsEmptyCache =
     (if w_mps_is_available w then 1 else 0) \<and>
   count_list (new_events s (snd (generate_video w prompt s))) CudaEmptyCache =
     (if w_cuda_is_available w then 1 else 0)"
proof -
  from generate_video_trace [of w prompt s] obtain evs h where
    tr: "trace (snd (generate_video w prompt s)) =
       trace s @ evs @ h @ [GcCollect] @ (if w_mps_is_available w then [MpsEmptyCache] else []) @
       (if w_cuda_is_available w then [Log Warning ClearingCudaCacheAfterError, CudaEmptyCache] else [])"
    and evs: "GcCollect \<notin> set evs" "MpsEmptyCache \<notin> set evs" "CudaEmptyCache \<notin> set evs"
    and h: "h = [] \<or> (\<exists>e. h = [Log Error (ErrorGeneratingVideo e)])"
    by blast
  from h have hc: "count_list h GcCollect = 0" "count_list h MpsEmptyCache = 0"
      "count_list h CudaEmptyCache = 0"
    by auto
  show ?thesis
    using evs hc by (simp add: new_events_append [OF tr] count_list_0_iff)
qed

text \<open>
  Claim C5 (cleanup frame condition). After \<open>generate_video\<close> the cache slot
  \<open>_cached_pipe\<close> holds the value it held right after the pipeline acquisition of that
  call: neither the pipeline call, nor the exception handler, nor the cleanup writes it.
\<close>

theorem generate_video_keeps_cache:
  "cached_pipe (snd (generate_video w prompt s)) = cached_pipe (snd (load_pipeline w None s))"
proof -
  obtain r s1 where t: "generate_video_try w prompt s = (r, s1)"
    by (cases "generate_video_try w prompt s")
  have "cached_pipe (snd (generate_video w prompt s)) = cached_pipe s1"
    by (cases r) (simp_all add: generate_video_def t cached_pipe_finally emit_simps)
  with cached_pipe_try [OF t] show ?thesis by simp
qed

text \<open>
  Claim C8 (fixed generation parameters). The pipeline calls among the events of
  \<open>generate_video\<close> are: none when the pipeline acquisition fails, and otherwise exactly
  one, on the acquired pipeline, with the caller's prompt and the constants below for the
  negative prompt, height, width, frame count, both guidance scales and the step count.
  The constants are the same for every prompt, world and state, and \<open>generate_video\<close>
  has no parameter besides the prompt.
\<close>

theorem generate_video_fixed_parameters:
  "filter is_PipeCall (new_events s (snd (generate_video w prompt s))) =
     (case fst (load_pipeline w None s) of
        Inl _ \<Rightarrow> []
      | Inr pipe \<Rightarrow>
         [PipeCall (pipe_id pipe)
            \<lparr>arg_prompt = prompt, arg_negative_prompt = NEGATIVE_PROMPT,
             arg_height = 1280, arg_width = 720, arg_num_frames = 150,
             arg_guidance_scale = 4, arg_guidance_scale_2 = 3,
             arg_num_inference_steps = 30\<rparr>])"
proof -
  from generate_video_trace [of w prompt s] obtain evs h where
    tr: "trace (snd (generate_video w prompt s)) =
       trace s @ evs @ h @ [GcCollect] @ (if w_mps_is_available w then [MpsEmptyCache] else []) @
       (if w_cuda_is_available w then [Log Warning ClearingCudaCacheAfterError, CudaEmptyCache] else [])"
    and h: "h = [] \<or> (\<exists>e. h = [Log Error (ErrorGeneratingVideo e)])"
    and pc: "filter is_PipeCall evs =
           (case fst (load_pipeline w None s) of
              Inl _ \<Rightarrow> []
            | Inr pipe \<Rightarrow>
               [PipeCall (pipe_id pipe)
                  \<lparr>arg_prompt = prompt, arg_negative_prompt = NEGATIVE_PROMPT,
                   arg_height = 1280, arg_width = 720, arg_num_frames = 150,
                   arg_guidance_scale = 4, arg_guidance_scale_2 = 3,
                   arg_num_inference_steps = 30\<rparr>])"
    by blast
  from h have "filter is_PipeCall h = []" by auto
  then show ?thesis
    by (simp add: new_events_append [OF tr] pc)
qed

text \<open>
  Claim C2 (generation failure policy), at the input where the code departs from it: the
  prompt \<open>a cat\<close> in a new process whose pipeline call raises \<open>RuntimeError\<close>. The
  error is logged once and the cleanup runs, but the call does not return an empty
  result: \<open>return video\<close> reads the unassigned local variable and the caller gets
  \<open>UnboundLocalError\<close>.
\<close>

theorem generate_video_failure_raises:
  "generate_video world_pipe_raises (str_of ''a cat'') init_state =
     (Inl UnboundLocalError,
      \<lparr>cached_pipe = Some \<lparr>pipe_id = 1, pipe_vae = 0, transformer_df11 = True,
           transformer_2_df11 = True, model_cpu_offload = True\<rparr>,
       next_obj = 2,
       trace =
        [DetectDevice, Log Info (UsingDevice (str_of ''cuda'')), Log Info UsingModelDFloat11,
         VaeFromPretrained WAN_DIFFUSERS, PipeFromPretrained WAN_DIFFUSERS,
         DFloat11FromPretrained DF11_TRANSFORMER, DFloat11FromPretrained DF11_TRANSFORMER_2,
         EnableModelCpuOffload, Log Info ModelLoadingFirstTime,
         Log Info (GeneratingVideoForPrompt (str_of ''a cat'')),
         PipeCall 1
           \<lparr>arg_prompt = str_of ''a cat'', arg_negative_prompt = NEGATIVE_PROMPT,
            arg_height = 1280, arg_width = 720, arg_num_frames = 150,
            arg_guidance_scale = 4, arg_guidance_scale_2 = 3,
            arg_num_inference_steps = 30\<rparr>,
         Log Error (ErrorGeneratingVideo (PyException ''RuntimeError'')),
         GcCollect, Log Warning ClearingCudaCacheAfterError, CudaEmptyCache]\<rparr>)"
proof -
  have w: "w_pipe_call world_pipe_raises = (\<lambda>_ _. Inl (PyException ''RuntimeError''))"
    "w_mps_is_available world_pipe_raises = False" "w_cuda_is_available world_pipe_raises = True"
    by (simp_all add: world_pipe_raises_def world_ok_def)
  show ?thesis
    by (simp add: generate_video_def generate_video_try_def generate_video_finally_def
        example_load_pipe_raises w emit_def log_info_def log_warn_def log_error_def Let_def
        UnboundLocalError_def)
qed

section \<open>storage.py\<close>

text \<open>
  Claim C6 (recorder best-effort contract). For all arguments, worlds and states: when
  \<open>db.add_generation\<close> returns the new record id, \<open>record_generation\<close> returns that
  id and does nothing but that call; when \<open>db.add_generation\<close> raises an error (an
  instance of \<open>Exception\<close>, which is what \<open>except Exception\<close> handles),
  \<open>record_generation\<close> logs it and returns \<open>None\<close> instead of raising.
\<close>

theorem record_generation_best_effort:
  "(w_db_add_generation w (add_generation_kwargs a) = Inr new_id \<longrightarrow>
      record_generation w a s =
        (Inr (Some new_id), emit (DbAddGeneration (add_generation_kwargs a)) s)) \<and>
   (w_db_add_generation w (add_generation_kwargs a) = Inl e \<and> is_Exception e \<longrightarrow>
      record_generation w a s =
        (Inr None,
         log_error (FailedToRecordGeneration e)
           (emit (DbAddGeneration (add_generation_kwargs a)) s)))"
  by (simp add: record_generation_def Let_def)

theorem record_generation_best_effort_witness:
  "w_db_add_generation world_ok (add_generation_kwargs example_args) = Inr 7 \<and>
   record_generation world_ok example_args init_state =
     (Inr (Some 7), emit (DbAddGeneration (add_generation_kwargs example_args)) init_state) \<and>
   w_db_add_generation world_db_down (add_generation_kwargs example_args) =
     Inl (PyException ''OperationalError'') \<and>
   is_Exception (PyException ''OperationalError'') \<and>
   record_generation world_db_down example_args init_state =
     (Inr None,
      log_error (FailedToRecordGeneration (PyException ''OperationalError''))
        (emit (DbAddGeneration (add_generation_kwargs example_args)) init_state))"
proof -
  have ok: "w_db_add_generation world_ok (add_generation_kwargs example_args) = Inr 7"
    by (simp add: world_ok_def)
  have down: "w_db_add_generation world_db_down (add_generation_kwargs example_args) =
      Inl (PyException ''OperationalError'')"
    by (simp add: world_db_down_def world_ok_def)
  from record_generation_best_effort [of world_ok example_args 7 init_state]
       record_generation_best_effort
         [of world_db_down example_args _ init_state "PyException ''OperationalError''"]
       ok down
  show ?thesis by simp
qed

text \<open>
  Claim C9 (status of a recorded generation). \<open>record_generation\<close> has no status
  parameter (\<open>generation_args\<close> has no such field), and for all arguments, whatever the
  database answers, it makes exactly one call of \<open>db.add_generation\<close>, whose \<open>status\<close>
  is \<open>succeeded\<close>.
\<close>

theorem record_generation_status_succeeded:
  "filter is_DbAddGeneration (new_events s (snd (record_generation w a s))) =
     [DbAddGeneration (add_generation_kwargs a)] \<and>
   row_status (add_generation_kwargs a) = str_of ''succeeded''"
  by (cases "w_db_add_generation w (add_generation_kwargs a)")
     (simp_all add: record_generation_def Let_def new_events_def emit_simps
        add_generation_kwargs_def)

text \<open>
  Claim C10 (result of \<open>sanitize_prompt\<close>), as stated for every \<open>max_len\<close>: the result
  is non-empty and is either the safe characters among the first \<open>max_len\<close> characters,
  of length at most \<open>max_len\<close>, or \<open>image\<close> when there are none. This fails for a
  negative \<open>max_len\<close>: for the prompt \<open>ab\<close> and \<open>max_len = -1\<close> the slice \<open>prompt[:-1]\<close>
  is \<open>a\<close>, so the result is \<open>a\<close>, of length 1.
\<close>

theorem sanitize_prompt_negative_counterexample:
  "\<not> (sanitize_prompt ascii_isalnum (str_of ''ab'') (- 1) \<noteq> [] \<and>
      ((sanitize_prompt ascii_isalnum (str_of ''ab'') (- 1) =
          filter (safe_char ascii_isalnum) (take (nat (- 1)) (str_of ''ab'')) \<and>
        int (length (sanitize_prompt ascii_isalnum (str_of ''ab'') (- 1))) \<le> - 1) \<or>
       (filter (safe_char ascii_isalnum) (take (nat (- 1)) (str_of ''ab'')) = [] \<and>
        sanitize_prompt ascii_isalnum (str_of ''ab'') (- 1) = str_of ''image'')))"
  by (simp add: sanitize_prompt_def slice_to_def safe_char_def ascii_isalnum_def str_of_def)

text \<open>
  Claim C10, amended: for every prompt and every \<open>max_len\<close> the result is non-empty; for
  every \<open>max_len\<close> that is not negative, the result is either the sequence of the safe
  characters (alphanumeric, \<open>-\<close> or \<open>_\<close>) among the first \<open>max_len\<close> characters of the
  prompt, in their order, and then of length at most \<open>max_len\<close>, or \<open>image\<close> when there is
  no such character.
\<close>

theorem sanitize_prompt_result:
  "sanitize_prompt isalnum prompt max_len \<noteq> [] \<and>
   (0 \<le> max_len \<longrightarrow>
      (sanitize_prompt isalnum prompt max_len =
         filter (safe_char isalnum) (take (nat max_len) prompt) \<and>
       int (length (sanitize_prompt isalnum prompt max_len)) \<le> max_len) \<or>
      (filter (safe_char isalnum) (take (nat max_len) prompt) = [] \<and>
       sanitize_prompt isalnum prompt max_len = str_of ''image''))"
proof -
  have "int (length (filter (safe_char isalnum) (take (nat max_len) prompt))) \<le> max_len"
    if "0 \<le> max_len"
  proof -
    have "length (filter (safe_char isalnum) (take (nat max_len) prompt)) \<le>
        length (take (nat max_len) prompt)"
      by (rule length_filter_le)
    also have "\<dots> \<le> nat max_len" by simp
    finally show ?thesis using that by simp
  qed
  then show ?thesis
    using sanitize_prompt_nonempty [of isalnum prompt max_len]
    by (auto simp: sanitize_prompt_def slice_to_def Let_def)
qed

theorem sanitize_prompt_result_witness:
  "(0::int) \<le> 5 \<and>
   sanitize_prompt ascii_isalnum (str_of ''a b-c_d!'') 5 = str_of ''ab-c'' \<and>
   sanitize_prompt ascii_isalnum (str_of ''a b-c_d!'') 5 =
     filter (safe_char ascii_isalnum) (take (nat 5) (str_of ''a b-c_d!'')) \<and>
   int (length (sanitize_prompt ascii_isalnum (str_of ''a b-c_d!'') 5)) \<le> 5"
proof -
  have f: "filter (safe_char ascii_isalnum) (take (nat 5) (str_of ''a b-c_d!'')) = str_of ''ab-c''"
    by (simp add: safe_char_def ascii_isalnum_def str_of_def)
  from sanitize_prompt_result [of ascii_isalnum "str_of ''a b-c_d!''" 5] f
  show ?thesis by (auto simp: str_of_def)
qed

section \<open>The hardware module\<close>

text \<open>
  Claim C7 (model recommendation). \<open>recommend_models\<close> is a function of the catalog and
  the profile (and of the reading of the budget). It returns the fitting entries in
  catalog order. When no entry fits, the result is the empty sequence, so nothing is marked.
  When some entry fits, exactly one position of the result is marked recommended; the
  entry there has the highest capability among the fitting entries, and every fitting
  entry declared before it has a strictly lower capability.
\<close>

theorem recommend_models_best_fit:
  "map md_id (recommend_models budget catalog profile) =
     map cat_id (filter (fits budget profile) catalog) \<and>
   (filter (fits budget profile) catalog = [] \<longrightarrow>
      recommend_models budget catalog profile = []) \<and>
   (filter (fits budget profile) catalog \<noteq> [] \<longrightarrow>
      (\<exists>i < length (filter (fits budget profile) catalog).
         map md_recommended (recommend_models budget catalog profile) =
           (replicate (length (filter (fits budget profile) catalog)) False)[i := True] \<and>
         (\<forall>j < length (filter (fits budget profile) catalog).
            cat_capability (filter (fits budget profile) catalog ! j) \<le>
            cat_capability (filter (fits budget profile) catalog ! i)) \<and>
         (\<forall>j < i.
            cat_capability (filter (fits budget profile) catalog ! j) <
            cat_capability (filter (fits budget profile) catalog ! i))))"
proof -
  let ?F = "filter (fits budget profile) catalog"
  have empty: "?F = [] \<longrightarrow> recommend_models budget catalog profile = []"
    by (simp add: recommend_models_def)
  have best: "\<exists>i < length ?F.
         map md_recommended (recommend_models budget catalog profile) =
           (replicate (length ?F) False)[i := True] \<and>
         (\<forall>j < length ?F. cat_capability (?F ! j) \<le> cat_capability (?F ! i)) \<and>
         (\<forall>j < i. cat_capability (?F ! j) < cat_capability (?F ! i))"
    if ne: "?F \<noteq> []"
  proof (intro exI conjI allI impI)
    show "best_index ?F < length ?F" using ne by (rule best_index_less)
    then show "map md_recommended (recommend_models budget catalog profile) =
           (replicate (length ?F) False)[best_index ?F := True]"
      by (simp add: recommend_models_marks mark_one)
    show "cat_capability (?F ! j) \<le> cat_capability (?F ! best_index ?F)" if "j < length ?F" for j
      using that by (rule best_index_max)
    show "cat_capability (?F ! j) < cat_capability (?F ! best_index ?F)" if "j < best_index ?F" for j
      using that by (rule best_index_first)
  qed
  from recommend_models_ids [of budget catalog profile] empty best show ?thesis by blast
qed

theorem recommend_models_best_fit_witness:
  "filter (fits example_budget example_profile) example_catalog \<noteq> [] \<and>
   map md_id (recommend_models example_budget example_catalog example_profile) =
     [str_of ''small'', str_of ''medium''] \<and>
   map md_recommended (recommend_models example_budget example_catalog example_profile) =
     [False, True] \<and>
   filter (fits example_budget example_small_profile) example_catalog = [] \<and>
   recommend_models example_budget example_catalog example_small_profile = []"
proof -
  have fit: "filter (fits example_budget example_profile) example_catalog =
      [\<lparr>cat_id = str_of ''small'', cat_upstream_id = str_of ''org/small'',
        cat_required_gb = 4, cat_capability = 1\<rparr>,
       \<lparr>cat_id = str_of ''medium'', cat_upstream_id = str_of ''org/medium'',
        cat_required_gb = 6, cat_capability = 2\<rparr>]"
    by (simp add: fits_def example_budget_def example_profile_def example_catalog_def)
  have none: "filter (fits example_budget example_small_profile) example_catalog = []"
    by (simp add: fits_def example_budget_def example_small_profile_def example_catalog_def)
  let ?F = "filter (fits example_budget example_profile) example_catalog"
  have len: "length ?F = 2" and ne: "?F \<noteq> []"
    by (simp_all add: fit)
  note best = recommend_models_best_fit [of example_budget example_catalog example_profile]
  from best have ids:
    "map md_id (recommend_models example_budget example_catalog example_profile) =
       [str_of ''small'', str_of ''medium'']"
    by (simp add: fit)
  from best ne obtain i where i: "i < length ?F"
      "map md_recommended (recommend_models example_budget example_catalog example_profile) =
         (replicate (length ?F) False)[i := True]"
      "\<forall>j < length ?F. cat_capability (?F ! j) \<le> cat_capability (?F ! i)"
    by blast
  from i(1) len have "i = 0 \<or> i = 1" by auto
  moreover have "i \<noteq> 0"
  proof
    assume "i = 0"
    with i(3) len have "cat_capability (?F ! 1) \<le> cat_capability (?F ! 0)" by simp
    then show False by (simp add: fit)
  qed
  ultimately have "i = 1" by simp
  with i(2) len have marks:
    "map md_recommended (recommend_models example_budget example_catalog example_profile) =
       [False, True]"
    by (simp add: numeral_2_eq_2)
  from recommend_models_best_fit [of example_budget example_catalog example_small_profile] none
  have "recommend_models example_budget example_catalog example_small_profile = []" by simp
  with ne none ids marks show ?thesis by simp
qed

end
